theory Spec2Isabelle
  imports Main "HOL-Library.Word"
begin

section \<open>The MIDI connection handler (Phase 3 of the roadmap)\<close>

text \<open>
  The repository is a planning document. Its executable content is a handful of
  TypeScript fragments: the class \<open>MIDIHandler\<close> (methods \<open>initialize\<close>,
  \<open>setupInputs\<close>, \<open>handleMIDIMessage\<close>), the class \<open>SheetRenderer\<close>, the Zustand
  store \<open>useGameStore\<close> and two helpers for upload and listing. This theory embeds
  \<open>MIDIHandler\<close> and \<open>useGameStore\<close>.
\<close>

subsection \<open>Values of the browser environment\<close>

text \<open>
  A thrown value is either the \<open>Error\<close> that \<open>initialize\<close> itself constructs, with its
  message, or an exception object of the browser, identified by its name.
\<close>

datatype error = Error string | DOMException string

text \<open>
  What awaiting a promise yields: the value it is fulfilled with, the reason it is
  rejected with (the \<open>await\<close> then throws that reason), or nothing at all while the
  promise stays pending.
\<close>

datatype 'a promise = Fulfilled 'a | Rejected error | Pending

text \<open>\<open>MIDIMessageEvent\<close>: the bytes of the message (a \<open>Uint8Array\<close>).\<close>

record MIDIMessageEvent =
  data :: "8 word list"

text \<open>
  A message handler is called with the event and acts on the state of the program,
  whatever that state is (\<open>'st\<close>); it either throws or returns with a new state.
\<close>

type_synonym 'st handler = "MIDIMessageEvent \<Rightarrow> 'st \<Rightarrow> error + 'st"

text \<open>
  \<open>MIDIInput\<close>: a port with its \<open>onmidimessage\<close> slot (\<open>None\<close> is \<open>null\<close>).
  \<open>MIDIAccess.inputs\<close> is a map-like object from port ids to ports; \<open>forEach\<close> visits
  its entries in order, so it is an association list.
\<close>

record 'st MIDIInput =
  name :: string
  onmidimessage :: "'st handler option"

record 'st MIDIAccess =
  inputs :: "(string \<times> 'st MIDIInput) list"

text \<open>
  \<open>navigator.requestMIDIAccess\<close> is a parameter of the model: \<open>None\<close> when the
  property is missing (the test \<open>!navigator.requestMIDIAccess\<close> succeeds), otherwise
  \<open>Some p\<close> where \<open>p\<close> is the promise that calling it returns.
\<close>

record 'st navigator =
  requestMIDIAccess :: "'st MIDIAccess promise option"

subsection \<open>The class \<open>MIDIHandler\<close>\<close>

text \<open>
  \<^verbatim>\<open>handleMIDIMessage(message: MIDIMessageEvent) { // Handle MIDI input here }\<close>
  The body is empty: the method returns without reading the message.
\<close>

definition handleMIDIMessage :: "'st handler" where
  "handleMIDIMessage message st = Inr st"

text \<open>
  \<^verbatim>\<open>midi.inputs.forEach((input) => { input.onmidimessage = this.handleMIDIMessage; });\<close>
  The ports are objects of the browser and are updated in place; the model returns the
  access object with its updated ports.
\<close>

definition setupInputs :: "'st MIDIAccess \<Rightarrow> 'st MIDIAccess" where
  "setupInputs midi =
     midi\<lparr>inputs :=
       map (\<lambda>(key, input). (key, input\<lparr>onmidimessage := Some handleMIDIMessage\<rparr>))
         (inputs midi)\<rparr>"

text \<open>
  \<^verbatim>\<open>
  async initialize() {
    if (!navigator.requestMIDIAccess) { throw new Error('WebMIDI not supported'); }
    const midi = await navigator.requestMIDIAccess();
    this.setupInputs(midi);
  }
  \<close>
  An \<open>async\<close> method returns a promise: \<open>Rejected e\<close> when the body throws \<open>e\<close>,
  \<open>Fulfilled\<close> (here with the access object as \<open>setupInputs\<close> left it) when the body
  returns, \<open>Pending\<close> when the body never gets past its \<open>await\<close>.
\<close>

definition initialize :: "'st navigator \<Rightarrow> 'st MIDIAccess promise" where
  "initialize nav =
     (case requestMIDIAccess nav of
        None \<Rightarrow> Rejected (Error ''WebMIDI not supported'')
      | Some p \<Rightarrow>
          (case p of
             Fulfilled midi \<Rightarrow> Fulfilled (setupInputs midi)
           | Rejected e \<Rightarrow> Rejected e
           | Pending \<Rightarrow> Pending))"

section \<open>The game state store (Phase 4 of the roadmap)\<close>

subsection \<open>Numbers\<close>

text \<open>
  \<open>score\<close> is a JavaScript \<open>number\<close>, an IEEE 754 double. The store only ever holds
  \<open>0\<close> or the result of \<open>state.score + 1\<close> in it, so the values that occur are
  non-negative integers and are modelled as \<open>nat\<close>. Addition is the exact sum rounded to
  53 significant bits, ties to the even significand (sums here stay far below
  \<open>2 ^ 1024\<close>, where a double would overflow).
\<close>

fun bit_length :: "nat \<Rightarrow> nat" where
  "bit_length n = (if n = 0 then 0 else Suc (bit_length (n div 2)))"

declare bit_length.simps [simp del]

definition round_double :: "nat \<Rightarrow> nat" where
  "round_double m =
     (if m < 2 ^ 53 then m
      else let k = bit_length m - 53;
               q = m div 2 ^ k;
               r = m mod 2 ^ k;
               half = 2 ^ (k - 1)
           in if r < half \<or> (r = half \<and> even q) then q * 2 ^ k else (q + 1) * 2 ^ k)"

definition js_add :: "nat \<Rightarrow> nat \<Rightarrow> nat" where
  "js_add a b = round_double (a + b)"

text \<open>
  The non-negative integers that a \<open>number\<close> holds exactly: those that fit in 53
  significant bits, below \<open>2 ^ 1024\<close>. Every integer up to \<open>2 ^ 53\<close> is one of them.
\<close>

definition representable :: "nat \<Rightarrow> bool" where
  "representable n \<longleftrightarrow> n < 2 ^ 1024 \<and> 2 ^ (bit_length n - 53) dvd n"

subsection \<open>The store\<close>

text \<open>
  \<^verbatim>\<open>
  interface GameState {
    currentNote: Note; score: number; isPlaying: boolean;
    setNote: (note: Note) => void; incrementScore: () => void;
  }
  \<close>
  The data fields are a record; \<open>currentNote\<close> starts as \<open>null\<close>, so a \<open>Note\<close> is an
  \<open>option\<close>. The two actions are the functions \<open>setNote\<close> and \<open>incrementScore\<close> below.
\<close>

record 'n GameState =
  currentNote :: "'n option"
  score :: nat
  isPlaying :: bool

text \<open>
  Zustand's \<open>set\<close> (a function of the library, not of this repository) takes a partial
  state, or a function from the current state to one, and merges it into the state
  key by key. A partial state names, for each data field, the new value if it has the key.
\<close>

record 'n GameState_partial =
  currentNote_key :: "'n option option"
  score_key :: "nat option"
  isPlaying_key :: "bool option"

definition merge :: "'n GameState \<Rightarrow> 'n GameState_partial \<Rightarrow> 'n GameState" where
  "merge state partial =
     \<lparr>currentNote = (case currentNote_key partial of None \<Rightarrow> currentNote state | Some v \<Rightarrow> v),
      score = (case score_key partial of None \<Rightarrow> score state | Some v \<Rightarrow> v),
      isPlaying = (case isPlaying_key partial of None \<Rightarrow> isPlaying state | Some v \<Rightarrow> v)\<rparr>"

definition set_state :: "('n GameState \<Rightarrow> 'n GameState_partial) \<Rightarrow> 'n GameState \<Rightarrow> 'n GameState" where
  "set_state f state = merge state (f state)"

text \<open>
  \<^verbatim>\<open>
  const useGameStore = create<GameState>((set) => ({
    currentNote: null, score: 0, isPlaying: false,
    setNote: (note) => set({ currentNote: note }),
    incrementScore: () => set((state) => ({ score: state.score + 1 })),
  }));
  \<close>
  \<open>useGameStore\<close> is the state the store is created with.
\<close>

definition useGameStore :: "'n GameState" where
  "useGameStore = \<lparr>currentNote = None, score = 0, isPlaying = False\<rparr>"

definition setNote :: "'n option \<Rightarrow> 'n GameState \<Rightarrow> 'n GameState" where
  "setNote note =
     set_state (\<lambda>_. \<lparr>currentNote_key = Some note, score_key = None, isPlaying_key = None\<rparr>)"

definition incrementScore :: "'n GameState \<Rightarrow> 'n GameState" where
  "incrementScore =
     set_state (\<lambda>state.
       \<lparr>currentNote_key = None, score_key = Some (js_add (score state) 1), isPlaying_key = None\<rparr>)"

text \<open>
  A session of the store is a sequence of calls of its two actions, applied in order.
\<close>

datatype 'n action = SetNote "'n option" | IncrementScore

fun dispatch :: "'n GameState \<Rightarrow> 'n action \<Rightarrow> 'n GameState" where
  "dispatch state (SetNote note) = setNote note state"
| "dispatch state IncrementScore = incrementScore state"

definition run :: "'n action list \<Rightarrow> 'n GameState \<Rightarrow> 'n GameState" where
  "run actions state = foldl dispatch state actions"

fun is_increment :: "'n action \<Rightarrow> bool" where
  "is_increment IncrementScore = True"
| "is_increment (SetNote note) = False"

definition increments :: "'n action list \<Rightarrow> nat" where
  "increments actions = length (filter is_increment actions)"

section \<open>Properties of the MIDI connection handler\<close>

lemma inputs_setupInputs:
  "inputs (setupInputs midi) =
     map (\<lambda>(key, input). (key, input\<lparr>onmidimessage := Some handleMIDIMessage\<rparr>)) (inputs midi)"
  by (simp add: setupInputs_def)

lemma setupInputs_keys: "map fst (inputs (setupInputs midi)) = map fst (inputs midi)"
  by (simp add: inputs_setupInputs case_prod_beta comp_def)

lemma setupInputs_names:
  "map (\<lambda>(key, input). name input) (inputs (setupInputs midi)) =
   map (\<lambda>(key, input). name input) (inputs midi)"
  by (simp add: inputs_setupInputs case_prod_beta comp_def)

lemma setupInputs_registers:
  "list_all (\<lambda>(key, input). onmidimessage input = Some handleMIDIMessage)
     (inputs (setupInputs midi))"
  by (simp add: inputs_setupInputs list_all_iff case_prod_beta)

text \<open>
  Claim C7. For every raw device message, whatever its bytes (so in particular for a
  control change, a clock or a system exclusive message, none of which is a note-on
  or a note-off), \<open>handleMIDIMessage\<close> raises no error and returns with the whole
  state of the program, any stream of emitted events included, exactly as it was.
\<close>

theorem handleMIDIMessage_no_effect:
  "handleMIDIMessage message st = Inr st"
  by (simp add: handleMIDIMessage_def)

text \<open>
  Claim C9, as amended. \<open>initialize\<close> throws the error with message
  \<open>WebMIDI not supported\<close> when \<open>navigator.requestMIDIAccess\<close> is absent. When it is
  present, the outcome follows the promise that \<open>requestMIDIAccess\<close> returns: if that
  promise is rejected, \<open>initialize\<close> throws the rejection reason and registers nothing;
  while it stays pending, \<open>initialize\<close> does not complete; if it is fulfilled,
  \<open>initialize\<close> does not throw and puts the same \<open>handleMIDIMessage\<close> handler on
  every MIDI input of the access object, keeping the ports, their ids and their order.
\<close>

theorem initialize_outcomes:
  "initialize (\<lparr>requestMIDIAccess = None\<rparr> :: 'st navigator)
     = Rejected (Error ''WebMIDI not supported'')
   \<and> initialize (\<lparr>requestMIDIAccess = Some (Rejected e)\<rparr> :: 'st navigator) = Rejected e
   \<and> initialize (\<lparr>requestMIDIAccess = Some Pending\<rparr> :: 'st navigator) = Pending
   \<and> initialize (\<lparr>requestMIDIAccess = Some (Fulfilled midi)\<rparr> :: 'st navigator)
     = Fulfilled (setupInputs midi)
   \<and> map fst (inputs (setupInputs midi)) = map fst (inputs midi)
   \<and> map (\<lambda>(key, input). name input) (inputs (setupInputs midi)) =
       map (\<lambda>(key, input). name input) (inputs midi)
   \<and> list_all (\<lambda>(key, input). onmidimessage input = Some handleMIDIMessage)
       (inputs (setupInputs midi))"
  by (simp add: initialize_def setupInputs_keys setupInputs_names setupInputs_registers)

theorem initialize_outcomes_witness:
  "initialize \<lparr>requestMIDIAccess = Some (Fulfilled
      \<lparr>inputs = [(''input-0'', \<lparr>name = ''Keyboard'', onmidimessage = None\<rparr>),
                  (''input-1'', \<lparr>name = ''Pedal'', onmidimessage = None\<rparr>)]\<rparr>)\<rparr>
   = Fulfilled
      \<lparr>inputs = [(''input-0'', \<lparr>name = ''Keyboard'',
                     onmidimessage = Some (handleMIDIMessage :: unit handler)\<rparr>),
                  (''input-1'', \<lparr>name = ''Pedal'', onmidimessage = Some handleMIDIMessage\<rparr>)]\<rparr>"
  using initialize_outcomes [of "DOMException ''NotAllowedError''"
      "\<lparr>inputs = [(''input-0'', \<lparr>name = ''Keyboard'', onmidimessage = None\<rparr>),
                  (''input-1'', \<lparr>name = ''Pedal'',
                     onmidimessage = (None :: unit handler option)\<rparr>)]\<rparr>"]
  by (simp add: setupInputs_def)

text \<open>
  Claim C9 as stated fails when \<open>requestMIDIAccess\<close> is present and the promise it
  returns is rejected, as it is when access to MIDI devices is refused: \<open>initialize\<close>
  then throws, although \<open>requestMIDIAccess\<close> is not absent, and what it throws is not
  the error with message \<open>WebMIDI not supported\<close>.
\<close>

theorem initialize_throws_when_access_refused:
  "requestMIDIAccess
     (\<lparr>requestMIDIAccess = Some (Rejected (DOMException ''NotAllowedError''))\<rparr> :: unit navigator)
     \<noteq> None
   \<and> initialize
     (\<lparr>requestMIDIAccess = Some (Rejected (DOMException ''NotAllowedError''))\<rparr> :: unit navigator)
     = Rejected (DOMException ''NotAllowedError'')"
  by (simp add: initialize_def)

section \<open>Properties of the store\<close>

lemma round_double_exact: "m \<le> 2 ^ 53 \<Longrightarrow> round_double m = m"
proof (cases "m < 2 ^ 53")
  case True
  then show ?thesis by (simp add: round_double_def)
next
  case False
  assume "m \<le> 2 ^ 53"
  with False have m: "m = 2 ^ 53" by simp
  show ?thesis
    unfolding m by (simp add: round_double_def bit_length.simps Let_def)
qed

lemma round_double_tie: "round_double (2 ^ 53 + 1) = 2 ^ 53"
  by (simp add: round_double_def bit_length.simps Let_def)

lemma round_double_above:
  "round_double (2 ^ 53 + 2) = 2 ^ 53 + 2"
  "round_double (2 ^ 53 + 3) = 2 ^ 53 + 4"
  "round_double (2 ^ 54 + 1) = 2 ^ 54"
  "round_double (2 ^ 54 + 6) = 2 ^ 54 + 8"
  by (simp_all add: round_double_def bit_length.simps Let_def)

lemma bit_length_bounds:
  "0 < n \<Longrightarrow> 2 ^ (bit_length n - 1) \<le> n \<and> n < 2 ^ bit_length n"
proof (induction n rule: bit_length.induct)
  case (1 n)
  show ?case
  proof (cases "n div 2 = 0")
    case True
    with "1.prems" have "n = 1" by (simp add: div_eq_0_iff) 
    then show ?thesis by (simp add: bit_length.simps)
  next
    case False
    then have pos: "0 < n div 2" by simp
    from "1.prems" have n0: "n \<noteq> 0" by simp
    from "1.IH" [OF n0 pos]
    have ih: "2 ^ (bit_length (n div 2) - 1) \<le> n div 2" "n div 2 < 2 ^ bit_length (n div 2)"
      by simp_all
    have bl: "bit_length n = Suc (bit_length (n div 2))"
      using n0 by (subst bit_length.simps) simp
    have blpos: "0 < bit_length (n div 2)"
      using False by (subst bit_length.simps) simp
    then have e: "bit_length n - 1 = Suc (bit_length (n div 2) - 1)"
      using bl by simp
    have "2 * 2 ^ (bit_length (n div 2) - 1) \<le> 2 * (n div 2)" using ih(1) by simp
    also have "\<dots> \<le> n" by simp
    finally have lo: "2 ^ (bit_length n - 1) \<le> n" unfolding e by simp
    have "n < 2 * (n div 2) + 2" by presburger
    also have "\<dots> \<le> 2 * 2 ^ bit_length (n div 2)" using ih(2) by simp
    finally have hi: "n < 2 ^ bit_length n" by (simp add: bl)
    from lo hi show ?thesis by simp
  qed
qed

lemma bit_length_eq:
  assumes lo: "2 ^ j \<le> n" and hi: "n < 2 ^ Suc j"
  shows "bit_length n = Suc j"
proof -
  have "(0::nat) < 2 ^ j" by simp
  then have pos: "0 < n" using lo by (rule less_le_trans)
  from bit_length_bounds [OF pos]
  have b: "2 ^ (bit_length n - 1) \<le> n" "n < 2 ^ bit_length n" by simp_all
  have "(2::nat) ^ j < 2 ^ bit_length n" using lo b(2) by (rule le_less_trans)
  then have 1: "j < bit_length n" by (rule power_less_imp_less_exp [rotated]) simp
  have "(2::nat) ^ (bit_length n - 1) < 2 ^ Suc j" using b(1) hi by (rule le_less_trans)
  then have 2: "bit_length n - 1 < Suc j" by (rule power_less_imp_less_exp [rotated]) simp
  from 1 2 show ?thesis by simp
qed


lemma div_mod_succ_multiple:
  assumes "(1::nat) < m"
  shows "(m * c + 1) div m = c" and "(m * c + 1) mod m = 1"
proof -
  from assms have m0: "m \<noteq> 0" by simp
  have "(m * c + 1) div m = c + 1 div m" using m0 by (rule div_mult_self4)
  then show "(m * c + 1) div m = c" using assms by simp
  have "(m * c + 1) mod m = 1 mod m" by (rule mod_mult_self4)
  then show "(m * c + 1) mod m = 1" using assms by simp
qed

lemma js_add_one_above:
  assumes ge: "2 ^ 53 \<le> n" and rep: "2 ^ (bit_length n - 53) dvd n"
  shows "js_add n 1 = (if n < 2 ^ 54 \<and> \<not> 4 dvd n then n + 2 else n)"
proof -
  define b where "b = bit_length n"
  define k where "k = b - 53"
  have "(0::nat) < 2 ^ 53" by simp
  then have pos: "0 < n" using ge by (rule less_le_trans)
  from bit_length_bounds [OF pos]
  have lo: "2 ^ (b - 1) \<le> n" and hi: "n < 2 ^ b" by (simp_all add: b_def)
  have "(2::nat) ^ 53 < 2 ^ b" using ge hi by (rule le_less_trans)
  then have b53: "53 < b" by (rule power_less_imp_less_exp [rotated]) simp
  then have k1: "1 \<le> k" and bk: "b = k + 53" by (simp_all add: k_def)
  from rep obtain c where c: "n = 2 ^ k * c" by (auto simp: k_def b_def)
  have pk: "(2::nat) ^ b = 2 ^ k * 2 ^ 53" unfolding bk by (simp only: power_add)
  have "2 ^ k * c < 2 ^ k * (2 ^ 53 :: nat)" using hi unfolding c pk .
  then have c53: "c < 2 ^ 53" by simp
  have two: "(2::nat) \<le> 2 ^ k" using k1 by (cases k) simp_all
  have "n + 1 < n + 2 ^ k" using two by simp
  also have "\<dots> = 2 ^ k * (c + 1)" by (simp add: c)
  also have "\<dots> \<le> 2 ^ k * 2 ^ 53" using c53 by (intro mult_le_mono2) simp
  finally have hi1: "n + 1 < 2 ^ Suc (b - 1)" using b53 by (simp add: pk)
  have lo1: "2 ^ (b - 1) \<le> n + 1" using lo by simp
  have bl: "bit_length (n + 1) = b"
    using bit_length_eq [OF lo1 hi1] b53 by simp
  have big: "\<not> n + 1 < 2 ^ 53" using ge by simp
  have one: "(1::nat) < 2 ^ k" using two by simp
  have q: "(n + 1) div 2 ^ k = c"
    unfolding c using one by (rule div_mod_succ_multiple)
  have r: "(n + 1) mod 2 ^ k = 1"
    unfolding c using one by (rule div_mod_succ_multiple)
  have rd: "round_double (n + 1) =
      (if 1 < (2::nat) ^ (k - 1) \<or> (1 = (2::nat) ^ (k - 1) \<and> even c) then c * 2 ^ k
       else (c + 1) * 2 ^ k)"
    unfolding round_double_def Let_def bl using big by (simp only: k_def [symmetric] q r if_False)
  show ?thesis
  proof (cases "k = 1")
    case True
    then have n2: "n = 2 * c" by (simp add: c)
    have lt: "n < 2 ^ 54" using c53 by (simp add: n2)
    have dvd4: "4 dvd n \<longleftrightarrow> even c" by (simp add: n2)
    show ?thesis
      unfolding js_add_def rd using True lt dvd4 by (simp add: n2)
  next
    case False
    with k1 have k2: "2 \<le> k" by simp
    have "(2::nat) ^ 1 \<le> 2 ^ (k - 1)" using k2 by (intro power_increasing) simp_all
    then have half: "1 < (2::nat) ^ (k - 1)" by simp
    have "(2::nat) ^ 54 \<le> 2 ^ (b - 1)" using k2 bk by (intro power_increasing) simp_all
    then have "2 ^ 54 \<le> n" using lo by (rule le_trans)
    then have nlt: "\<not> n < 2 ^ 54" by simp
    show ?thesis
      unfolding js_add_def rd using half nlt by (simp add: c)
  qed
qed

lemma representable_fixed:
  assumes "representable n"
  shows "round_double n = n"
proof (cases "n < 2 ^ 53")
  case True
  then show ?thesis by (simp add: round_double_def)
next
  case False
  define k where "k = bit_length n - 53"
  from assms obtain c where c: "n = 2 ^ k * c"
    by (auto simp: representable_def k_def)
  have q: "n div 2 ^ k = c" by (simp add: c)
  have r: "n mod 2 ^ k = 0" by (simp add: c)
  have "round_double n = c * 2 ^ k"
    unfolding round_double_def Let_def using False
    by (simp only: k_def [symmetric] q r if_False) simp
  then show ?thesis by (simp add: c)
qed

lemma score_incrementScore: "score (incrementScore s) = js_add (score s) 1"
  by (simp add: incrementScore_def set_state_def merge_def)

lemma score_incrementScore_below:
  "score s < 2 ^ 53 \<Longrightarrow> score (incrementScore s) = score s + 1"
  unfolding score_incrementScore js_add_def by (rule round_double_exact) simp

lemma score_incrementScore_at:
  "score s = 2 ^ 53 \<Longrightarrow> score (incrementScore s) = score s"
  by (simp add: score_incrementScore js_add_def round_double_def bit_length.simps Let_def)

lemma setNote_fields:
  "currentNote (setNote note s) = note"
  "score (setNote note s) = score s"
  "isPlaying (setNote note s) = isPlaying s"
  by (simp_all add: setNote_def set_state_def merge_def)

lemma incrementScore_fields:
  "currentNote (incrementScore s) = currentNote s"
  "isPlaying (incrementScore s) = isPlaying s"
  by (simp_all add: incrementScore_def set_state_def merge_def)

lemma isPlaying_dispatch: "isPlaying (dispatch s a) = isPlaying s"
  by (cases a) (simp_all add: setNote_fields incrementScore_fields)

lemma isPlaying_run: "isPlaying (run actions s) = isPlaying s"
  by (induction actions arbitrary: s) (simp_all add: run_def isPlaying_dispatch)

lemma score_dispatch:
  assumes le: "score s \<le> 2 ^ 53"
  shows "score (dispatch s a) = min (score s + (if is_increment a then 1 else 0)) (2 ^ 53)"
proof (cases a)
  case (SetNote x)
  with le show ?thesis by (simp add: setNote_fields)
next
  case IncrementScore
  show ?thesis
  proof (cases "score s < 2 ^ 53")
    case True
    with IncrementScore show ?thesis
      by (simp add: score_incrementScore_below)
  next
    case False
    with le have "score s = 2 ^ 53" by simp
    with IncrementScore show ?thesis
      by (simp add: score_incrementScore_at)
  qed
qed

lemma score_run:
  "score s \<le> 2 ^ 53 \<Longrightarrow> score (run actions s) = min (score s + increments actions) (2 ^ 53)"
proof (induction actions arbitrary: s)
  case Nil
  then show ?case by (simp add: run_def increments_def)
next
  case (Cons a actions)
  have step: "score (dispatch s a) = min (score s + (if is_increment a then 1 else 0)) (2 ^ 53)"
    using Cons.prems by (rule score_dispatch)
  then have "score (dispatch s a) \<le> 2 ^ 53" by simp
  then have "score (run actions (dispatch s a)) =
      min (score (dispatch s a) + increments actions) (2 ^ 53)"
    by (rule Cons.IH)
  moreover have "run (a # actions) s = run actions (dispatch s a)"
    by (simp add: run_def)
  moreover have "increments (a # actions) = (if is_increment a then 1 else 0) + increments actions"
    by (simp add: increments_def)
  ultimately show ?case
    using step by (simp add: min_def)
qed

lemma score_incrementScore_above:
  assumes "2 ^ 53 \<le> score s" and "representable (score s)"
  shows "score (incrementScore s) =
    (if score s < 2 ^ 54 \<and> \<not> 4 dvd score s then score s + 2 else score s)"
proof -
  from assms(2) have "2 ^ (bit_length (score s) - 53) dvd score s"
    by (simp add: representable_def)
  with assms(1) show ?thesis
    unfolding score_incrementScore by (rule js_add_one_above)
qed

lemma score_run_useGameStore:
  "score (run actions (useGameStore :: 'n GameState)) = min (increments actions) (2 ^ 53)"
proof -
  have "score (useGameStore :: 'n GameState) \<le> 2 ^ 53"
    by (simp add: useGameStore_def)
  then have "score (run actions (useGameStore :: 'n GameState)) =
      min (score (useGameStore :: 'n GameState) + increments actions) (2 ^ 53)"
    by (rule score_run)
  then show ?thesis by (simp add: useGameStore_def)
qed

text \<open>
  Claim C10, as amended. Each action of the store writes only its own field: for every
  state, \<open>setNote note\<close> sets \<open>currentNote\<close> to \<open>note\<close> and leaves \<open>score\<close> and
  \<open>isPlaying\<close> as they are, and \<open>incrementScore\<close> leaves \<open>currentNote\<close> and
  \<open>isPlaying\<close> as they are. \<open>incrementScore\<close> increases \<open>score\<close> by exactly 1 for
  every state whose score is below \<open>2 ^ 53\<close>. For a score from \<open>2 ^ 53\<close> on that a
  number holds exactly, it sets \<open>score\<close> to the double nearest to \<open>score + 1\<close>, ties
  to even: \<open>score + 2\<close> when the score is below \<open>2 ^ 54\<close> and not a multiple of 4,
  and the score unchanged otherwise, in particular at \<open>2 ^ 53\<close>. So the score of a
  store run from its creation is the number of \<open>incrementScore\<close> calls made, capped at
  \<open>2 ^ 53\<close>: a non-negative counter that is not confined to the interval from 0 to 1,
  and not an unbounded one.
\<close>

theorem store_actions_frame:
  "currentNote (setNote note (s :: 'n GameState)) = note
   \<and> score (setNote note s) = score s
   \<and> isPlaying (setNote note s) = isPlaying s
   \<and> currentNote (incrementScore s) = currentNote s
   \<and> isPlaying (incrementScore s) = isPlaying s
   \<and> (score s < 2 ^ 53 \<longrightarrow> score (incrementScore s) = score s + 1)
   \<and> (score s = 2 ^ 53 \<longrightarrow> score (incrementScore s) = score s)
   \<and> (2 ^ 53 \<le> score s \<and> representable (score s) \<longrightarrow>
        score (incrementScore s) =
          (if score s < 2 ^ 54 \<and> \<not> 4 dvd score s then score s + 2 else score s))
   \<and> score (run actions (useGameStore :: 'n GameState)) = min (increments actions) (2 ^ 53)"
  by (simp add: setNote_fields incrementScore_fields score_incrementScore_below
      score_incrementScore_at score_incrementScore_above score_run_useGameStore)

theorem store_actions_frame_witness:
  "score (useGameStore :: unit GameState) < 2 ^ 53
   \<and> score (incrementScore (useGameStore :: unit GameState)) = 1
   \<and> currentNote (incrementScore (useGameStore :: unit GameState)) = None
   \<and> isPlaying (incrementScore (useGameStore :: unit GameState)) = False
   \<and> currentNote (setNote (Some ()) (useGameStore :: unit GameState)) = Some ()
   \<and> score (setNote (Some ()) (useGameStore :: unit GameState)) = 0
   \<and> representable (2 ^ 53)
   \<and> score (incrementScore \<lparr>currentNote = None :: unit option, score = 2 ^ 53, isPlaying = True\<rparr>)
       = 2 ^ 53
   \<and> representable (2 ^ 53 + 2)
   \<and> score (incrementScore
         \<lparr>currentNote = None :: unit option, score = 2 ^ 53 + 2, isPlaying = True\<rparr>)
       = 2 ^ 53 + 4
   \<and> representable (2 ^ 54)
   \<and> score (incrementScore \<lparr>currentNote = None :: unit option, score = 2 ^ 54, isPlaying = True\<rparr>)
       = 2 ^ 54
   \<and> score (run [IncrementScore, SetNote (Some ()), IncrementScore]
         (useGameStore :: unit GameState)) = 2"
proof -
  have r: "representable (2 ^ 53)" "representable (2 ^ 53 + 2)" "representable (2 ^ 54)"
    by (simp_all add: representable_def bit_length.simps)
  show ?thesis
    using r
      store_actions_frame [of "Some ()" "useGameStore :: unit GameState"
        "[IncrementScore, SetNote (Some ()), IncrementScore]"]
      store_actions_frame [of "Some ()"
        "\<lparr>currentNote = None :: unit option, score = 2 ^ 53, isPlaying = True\<rparr>" "[]"]
      store_actions_frame [of "Some ()"
        "\<lparr>currentNote = None :: unit option, score = 2 ^ 53 + 2, isPlaying = True\<rparr>" "[]"]
      store_actions_frame [of "Some ()"
        "\<lparr>currentNote = None :: unit option, score = 2 ^ 54, isPlaying = True\<rparr>" "[]"]
    by (simp add: useGameStore_def increments_def)
qed

text \<open>
  Claim C10 as stated fails at a state whose score is \<open>2 ^ 53 = 9007199254740992\<close>:
  there \<open>incrementScore\<close> does not increase the score by 1, it leaves it unchanged.
\<close>

theorem incrementScore_saturates:
  "score (incrementScore \<lparr>currentNote = None :: unit option, score = 9007199254740992,
      isPlaying = False\<rparr>) = 9007199254740992
   \<and> score (incrementScore \<lparr>currentNote = None :: unit option, score = 9007199254740992,
      isPlaying = False\<rparr>)
     \<noteq> score \<lparr>currentNote = None :: unit option, score = 9007199254740992,
      isPlaying = False\<rparr> + 1"
  by (simp add: score_incrementScore js_add_def round_double_def bit_length.simps Let_def)

end
